theory Spec2Isabelle
  imports Complex_Main
begin

section \<open>Python strings\<close>

text \<open>
  A Python \<open>str\<close> is a sequence of Unicode code points; \<open>len\<close>, slicing and
  \<open>split\<close> count code points. A string is therefore a list of code points, and
  \<open>ustr\<close> reads an ASCII literal of the source as such a list.
\<close>

type_synonym pystr = "nat list"

definition ustr :: "string \<Rightarrow> pystr" where
  "ustr s = map of_char s"

text \<open>
  The code points on which \<open>str.split()\<close> (no argument) separates words: those for
  which \<open>str.isspace\<close> holds.
\<close>

definition isspace :: "nat \<Rightarrow> bool" where
  "isspace c =
     ((9 \<le> c \<and> c \<le> 13) \<or> (28 \<le> c \<and> c \<le> 32) \<or> c = 133 \<or> c = 160 \<or> c = 5760
      \<or> (8192 \<le> c \<and> c \<le> 8202) \<or> c = 8232 \<or> c = 8233 \<or> c = 8239 \<or> c = 8287
      \<or> c = 12288)"

text \<open>
  \<open>s.split()\<close>: the maximal runs of non-whitespace code points, in order. The word
  being read is kept reversed in \<open>cur\<close>.
\<close>

fun split_from :: "pystr \<Rightarrow> pystr \<Rightarrow> pystr list" where
  "split_from cur [] = (if cur = [] then [] else [rev cur])"
| "split_from cur (c # cs) =
     (if isspace c then (if cur = [] then split_from [] cs else rev cur # split_from [] cs)
      else split_from (c # cur) cs)"

definition split :: "pystr \<Rightarrow> pystr list" where
  "split s = split_from [] s"

text \<open>
  \<open>s.lower()\<close>. The case mapping is written out for the code points below 256
  (\<open>A\<close>..\<open>Z\<close> and the Latin-1 capitals); a code point from 256 on is left as it
  is. The lower-case form is only searched for ASCII keywords below. The two code
  points from 256 on whose lower-case form holds an ASCII letter are U+212A (a
  \<open>k\<close>) and U+0130 (an \<open>i\<close> followed by U+0307); no keyword holds a \<open>k\<close> or ends
  in \<open>i\<close>, so each of these searches comes out as in Python for every string.
\<close>

definition lower_cp :: "nat \<Rightarrow> nat" where
  "lower_cp c =
     (if (65 \<le> c \<and> c \<le> 90) \<or> (192 \<le> c \<and> c \<le> 222 \<and> c \<noteq> 215) then c + 32 else c)"

definition lower :: "pystr \<Rightarrow> pystr" where
  "lower s = map lower_cp s"

text \<open>\<open>sub in s\<close> for two strings: \<open>sub\<close> occurs in \<open>s\<close> as a contiguous slice.\<close>

fun startswith :: "'a list \<Rightarrow> 'a list \<Rightarrow> bool" where
  "startswith s [] = True"
| "startswith [] (p # ps) = False"
| "startswith (c # cs) (p # ps) = (c = p \<and> startswith cs ps)"

fun substring_in :: "'a list \<Rightarrow> 'a list \<Rightarrow> bool" where
  "substring_in sub [] = (sub = [])"
| "substring_in sub (c # cs) = (startswith (c # cs) sub \<or> substring_in sub cs)"

section \<open>Messages and client configuration\<close>

text \<open>
  The content of a message is a text or a list: the framework types a system
  message's content as a text, a user's or an assistant's as a text or a list (of
  texts and images, of function calls), a function result message's as a list of
  results. The code reads a content in two ways only, through \<open>str(content)\<close> and
  through its truth value, so an item of a list is given by its \<open>repr\<close>, the text
  that \<open>str\<close> of the list prints for it.
\<close>

datatype message_content = Text pystr | Items "pystr list"

text \<open>\<open>str(content)\<close>: a text is itself, a list is its items' \<open>repr\<close>s, separated
  by a comma and a space, in square brackets.\<close>

fun join_items :: "pystr list \<Rightarrow> pystr" where
  "join_items [] = []"
| "join_items [x] = x"
| "join_items (x # y # ys) = x @ ustr '', '' @ join_items (y # ys)"

fun str_content :: "message_content \<Rightarrow> pystr" where
  "str_content (Text s) = s"
| "str_content (Items xs) = ustr ''['' @ join_items xs @ ustr '']''"

text \<open>The truth value of a content: an empty text and an empty list are false.\<close>

fun truthy :: "message_content \<Rightarrow> bool" where
  "truthy (Text s) = (s \<noteq> [])"
| "truthy (Items xs) = (xs \<noteq> [])"

text \<open>
  The four message classes of the chat framework, each with its content; user and
  assistant messages also name their source.
\<close>

datatype llm_message =
    is_SystemMessage: SystemMessage (content: message_content)
  | is_UserMessage: UserMessage (content: message_content) (source: pystr)
  | is_AssistantMessage: AssistantMessage (content: message_content) (source: pystr)
  | is_FunctionExecutionResultMessage: FunctionExecutionResultMessage (content: message_content)

text \<open>
  The attributes \<open>__init__\<close> stores: both clients keep the first four, the live
  client adds the endpoint's base URL.
\<close>

record client_configuration =
  model :: pystr
  api_key :: "pystr option"
  temperature :: real
  max_tokens :: int

record gemini_client = client_configuration +
  base_url :: pystr

type_synonym mock_gemini_client = client_configuration

section \<open>The message translator (\<open>_convert_messages\<close>)\<close>

text \<open>
  The request body: \<open>{"contents": [{"parts": [{"text": ...}]}, ...],
  "generationConfig": {...}, "systemInstruction": {"parts": [{"text": ...}]}}\<close>,
  the last key present only when it was set.
\<close>

datatype part = Part (part_text: pystr)

datatype gemini_content = Content (parts: "part list")

datatype generation_config = GenerationConfig (gc_temperature: real) (maxOutputTokens: int)

record payload =
  contents :: "gemini_content list"
  generationConfig :: generation_config
  systemInstruction :: "gemini_content option"

text \<open>
  The loop over the messages, with its two variables \<open>system_instruction\<close> and
  \<open>gemini_contents\<close>. A system instruction, once set, is a non-empty dictionary and
  so is true: \<open>not system_instruction\<close> holds only while it is \<open>None\<close>.
\<close>

fun convert_loop ::
  "llm_message list \<Rightarrow> gemini_content option \<Rightarrow> gemini_content list
     \<Rightarrow> gemini_content option \<times> gemini_content list" where
  "convert_loop [] system_instruction gemini_contents = (system_instruction, gemini_contents)"
| "convert_loop (SystemMessage c # ms) system_instruction gemini_contents =
     convert_loop ms
       (if system_instruction = None then Some (Content [Part (str_content c)])
        else system_instruction)
       gemini_contents"
| "convert_loop (UserMessage c src # ms) system_instruction gemini_contents =
     convert_loop ms system_instruction (gemini_contents @ [Content [Part (str_content c)]])"
| "convert_loop (AssistantMessage c src # ms) system_instruction gemini_contents =
     convert_loop ms system_instruction gemini_contents"
| "convert_loop (FunctionExecutionResultMessage c # ms) system_instruction gemini_contents =
     convert_loop ms system_instruction
       (gemini_contents @ [Content [Part (ustr ''Function result: '' @ str_content c)]])"

definition default_system_instruction :: gemini_content where
  "default_system_instruction =
     Content [Part (ustr ''You are a helpful AI assistant. Provide clear, direct responses.'')]"

definition convert_messages :: "'a client_configuration_scheme \<Rightarrow> llm_message list \<Rightarrow> payload" where
  "convert_messages self messages =
     (case convert_loop messages None [] of
        (system_instruction, gemini_contents) \<Rightarrow>
          \<lparr>contents =
             (if gemini_contents = [] then [Content [Part (ustr ''Hello'')]]
              else gemini_contents),
           generationConfig = GenerationConfig (temperature self) (max_tokens self),
           systemInstruction =
             (case system_instruction of
                Some si \<Rightarrow> Some si
              | None \<Rightarrow>
                  if substring_in (ustr ''preview'') (lower (model self))
                  then Some default_system_instruction
                  else None)\<rparr>)"

section \<open>Python values and exceptions\<close>

text \<open>
  What \<open>response.json()\<close> returns, and what the metadata dictionaries hold: the
  Python values a JSON text parses to. The items of a dictionary are an association
  list read with \<open>map_of\<close>.
\<close>

datatype pyval =
    PNone
  | PBool bool
  | PInt int
  | PFloat real
  | PStr pystr
  | PList "pyval list"
  | PDict "(pystr \<times> pyval) list"

text \<open>
  The exceptions of the model: the \<open>ValueError\<close> the constructor raises with its
  message, the interpreter's errors on a value of the wrong shape, and
  \<open>LibraryError\<close> for whatever the HTTP library raises (a connection error, a
  timeout, a body that is no JSON), named by a description. \<open>str(e)\<close> of an
  exception is worded by the interpreter and the library, so the functions that
  print an exception take \<open>str_exc\<close> as an argument.
\<close>

datatype exc =
    ValueError pystr
  | TypeError
  | KeyError
  | IndexError
  | AttributeError
  | LibraryError pystr

definition and_then :: "exc + 'a \<Rightarrow> ('a \<Rightarrow> exc + 'b) \<Rightarrow> exc + 'b" where
  "and_then r f = (case r of Inl e \<Rightarrow> Inl e | Inr v \<Rightarrow> f v)"

text \<open>\<open>k in v\<close> for a string \<open>k\<close>: a key of a dictionary, an element of a list, a
  slice of a string; any other value is no container.\<close>

fun py_in :: "pystr \<Rightarrow> pyval \<Rightarrow> exc + bool" where
  "py_in k (PDict kvs) = Inr (map_of kvs k \<noteq> None)"
| "py_in k (PList xs) = Inr (List.member xs (PStr k))"
| "py_in k (PStr s) = Inr (substring_in k s)"
| "py_in k PNone = Inl TypeError"
| "py_in k (PBool b) = Inl TypeError"
| "py_in k (PInt i) = Inl TypeError"
| "py_in k (PFloat x) = Inl TypeError"

fun py_len :: "pyval \<Rightarrow> exc + nat" where
  "py_len (PDict kvs) = Inr (length (remdups (map fst kvs)))"
| "py_len (PList xs) = Inr (length xs)"
| "py_len (PStr s) = Inr (length s)"
| "py_len PNone = Inl TypeError"
| "py_len (PBool b) = Inl TypeError"
| "py_len (PInt i) = Inl TypeError"
| "py_len (PFloat x) = Inl TypeError"

text \<open>\<open>v[k]\<close> for a string \<open>k\<close>: only a dictionary is indexed by a string.\<close>

fun py_getitem :: "pyval \<Rightarrow> pystr \<Rightarrow> exc + pyval" where
  "py_getitem (PDict kvs) k = (case map_of kvs k of None \<Rightarrow> Inl KeyError | Some v \<Rightarrow> Inr v)"
| "py_getitem (PList xs) k = Inl TypeError"
| "py_getitem (PStr s) k = Inl TypeError"
| "py_getitem PNone k = Inl TypeError"
| "py_getitem (PBool b) k = Inl TypeError"
| "py_getitem (PInt i) k = Inl TypeError"
| "py_getitem (PFloat x) k = Inl TypeError"

text \<open>\<open>v[0]\<close>: the first element of a list, the first character of a string; the
  keys of a parsed JSON object are strings, so \<open>0\<close> is no key of a dictionary.\<close>

fun py_first :: "pyval \<Rightarrow> exc + pyval" where
  "py_first (PList []) = Inl IndexError"
| "py_first (PList (x # xs)) = Inr x"
| "py_first (PStr []) = Inl IndexError"
| "py_first (PStr (c # cs)) = Inr (PStr [c])"
| "py_first (PDict kvs) = Inl KeyError"
| "py_first PNone = Inl TypeError"
| "py_first (PBool b) = Inl TypeError"
| "py_first (PInt i) = Inl TypeError"
| "py_first (PFloat x) = Inl TypeError"

text \<open>\<open>str(n)\<close> of an integer: its decimal digits.\<close>

fun digits :: "nat \<Rightarrow> pystr" where
  "digits n = (if n < 10 then [48 + n] else digits (n div 10) @ [48 + n mod 10])"

declare digits.simps [simp del]

definition str_int :: "int \<Rightarrow> pystr" where
  "str_int i = (if i < 0 then 45 # digits (nat (- i)) else digits (nat i))"

section \<open>The transport (\<open>_generate_response\<close>)\<close>

text \<open>
  The one \<open>session.post\<close> of a call. The backend is a function from the request to
  what happens: the library raises, or a response arrives with its status, the
  outcome of \<open>response.json()\<close> and the outcome of \<open>response.text()\<close>.
\<close>

record http_request =
  url :: pystr
  json :: payload
  headers :: "(pystr \<times> pystr) list"
  params :: "(pystr \<times> pystr option) list"
  timeout_total :: nat

record http_response =
  status :: int
  json_result :: "exc + pyval"
  text_result :: "exc + pystr"

datatype post_result = PostRaised exc | PostResponse http_response

definition generate_request :: "gemini_client \<Rightarrow> payload \<Rightarrow> http_request" where
  "generate_request self payload =
     \<lparr>url = base_url self @ ustr ''/models/'' @ model self @ ustr '':generateContent'',
      json = payload,
      headers = [(ustr ''Content-Type'', ustr ''application/json'')],
      params = [(ustr ''key'', api_key self)],
      timeout_total = 30\<rparr>"

definition no_response_text :: pystr where
  "no_response_text = ustr ''I apologize, but I couldn't generate a response.''"

text \<open>
  The walk through a parsed 200 body, test by test in the source's order; \<open>and\<close>
  evaluates its right operand only when the left one holds. \<open>Inl\<close> is an exception
  raised on the way, \<open>Inr\<close> the value the function returns.
\<close>

definition extract_text :: "pyval \<Rightarrow> exc + pyval" where
  "extract_text result =
     and_then (py_in (ustr ''candidates'') result) (\<lambda>has_key.
     and_then
       (if has_key
        then and_then (py_getitem result (ustr ''candidates'')) (\<lambda>cs.
             and_then (py_len cs) (\<lambda>n. Inr (0 < n)))
        else Inr False) (\<lambda>has_candidate.
     if has_candidate then
       and_then (py_getitem result (ustr ''candidates'')) (\<lambda>cs.
       and_then (py_first cs) (\<lambda>candidate.
       and_then (py_in (ustr ''content'') candidate) (\<lambda>has_content.
       and_then
         (if has_content
          then and_then (py_getitem candidate (ustr ''content'')) (\<lambda>ct.
               py_in (ustr ''parts'') ct)
          else Inr False) (\<lambda>has_parts.
       if has_parts then
         and_then (py_getitem candidate (ustr ''content'')) (\<lambda>ct.
         and_then (py_getitem ct (ustr ''parts'')) (\<lambda>ps.
         and_then (py_len ps) (\<lambda>n.
         and_then
           (if 0 < n then and_then (py_first ps) (\<lambda>p. py_in (ustr ''text'') p)
            else Inr False) (\<lambda>has_text.
         if has_text
         then and_then (py_first ps) (\<lambda>p. py_getitem p (ustr ''text''))
         else Inr (PStr no_response_text)))))
       else Inr (PStr no_response_text)))))
     else Inr (PStr no_response_text)))"

text \<open>The body of the \<open>try\<close> block.\<close>

definition post_and_read ::
  "gemini_client \<Rightarrow> (http_request \<Rightarrow> post_result) \<Rightarrow> payload \<Rightarrow> exc + pyval" where
  "post_and_read self post payload =
     (case post (generate_request self payload) of
        PostRaised e \<Rightarrow> Inl e
      | PostResponse response \<Rightarrow>
          if status response = 200
          then and_then (json_result response) extract_text
          else and_then (text_result response) (\<lambda>error_text.
                 Inr (PStr (ustr ''API Error '' @ str_int (status response) @ ustr '': ''
                            @ error_text))))"

text \<open>\<open>except Exception as e: return f"Error: {str(e)}"\<close>: every exception of the
  block becomes a returned text.\<close>

definition generate_response ::
  "(exc \<Rightarrow> pystr) \<Rightarrow> gemini_client \<Rightarrow> (http_request \<Rightarrow> post_result) \<Rightarrow> payload \<Rightarrow> pyval" where
  "generate_response str_exc self post payload =
     (case post_and_read self post payload of
        Inl e \<Rightarrow> PStr (ustr ''Error: '' @ str_exc e)
      | Inr v \<Rightarrow> v)"

section \<open>The result normalizer (\<open>_create_result\<close>) and \<open>create\<close>\<close>

record RequestUsage =
  prompt_tokens :: int
  completion_tokens :: int

text \<open>The \<open>CreateResult\<close> of the framework; its \<open>content\<close> field is
  \<open>result_content\<close> here, the name \<open>content\<close> being the messages'.\<close>

record CreateResult =
  result_content :: pystr
  finish_reason :: pystr
  usage :: RequestUsage
  cached :: bool

definition prompt_words :: "llm_message list \<Rightarrow> int" where
  "prompt_words original_messages =
     sum_list (map (\<lambda>msg. int (length (split (str_content (content msg))))) original_messages)"

text \<open>\<open>response_text.split()\<close> exists only for a string: any other value returned
  by the transport raises \<open>AttributeError\<close> here.\<close>

fun create_result :: "pyval \<Rightarrow> llm_message list \<Rightarrow> exc + CreateResult" where
  "create_result (PStr response_text) original_messages =
     Inr \<lparr>result_content = response_text,
          finish_reason = ustr ''stop'',
          usage = \<lparr>prompt_tokens = prompt_words original_messages,
                   completion_tokens = int (length (split response_text))\<rparr>,
          cached = False\<rparr>"
| "create_result PNone original_messages = Inl AttributeError"
| "create_result (PBool b) original_messages = Inl AttributeError"
| "create_result (PInt i) original_messages = Inl AttributeError"
| "create_result (PFloat x) original_messages = Inl AttributeError"
| "create_result (PList xs) original_messages = Inl AttributeError"
| "create_result (PDict kvs) original_messages = Inl AttributeError"

text \<open>\<open>create\<close> of the live client; its \<open>except\<close> clause logs and raises again.\<close>

definition create ::
  "(exc \<Rightarrow> pystr) \<Rightarrow> gemini_client \<Rightarrow> (http_request \<Rightarrow> post_result) \<Rightarrow> llm_message list
     \<Rightarrow> exc + CreateResult" where
  "create str_exc self post messages =
     (let payload = convert_messages self messages;
          response = generate_response str_exc self post payload
      in create_result response messages)"

section \<open>Construction, metadata and token counting of the live client\<close>

text \<open>\<open>GeminiChatCompletionClient.__init__\<close>: \<open>not api_key\<close> holds for
  \<open>None\<close> and for the empty string.\<close>

definition GeminiChatCompletionClient_init ::
  "pystr \<Rightarrow> pystr option \<Rightarrow> real \<Rightarrow> int \<Rightarrow> exc + gemini_client" where
  "GeminiChatCompletionClient_init model_arg api_key_arg temperature_arg max_tokens_arg =
     (if api_key_arg = None \<or> api_key_arg = Some []
      then Inl (ValueError (ustr ''Google API key is required for Gemini client''))
      else Inr \<lparr>model = model_arg, api_key = api_key_arg, temperature = temperature_arg,
                max_tokens = max_tokens_arg,
                base_url = ustr ''https://generativelanguage.googleapis.com/v1beta''\<rparr>)"

definition capabilities :: "gemini_client \<Rightarrow> (pystr \<times> pyval) list" where
  "capabilities self =
     [(ustr ''vision'', PBool False),
      (ustr ''function_calling'', PBool False),
      (ustr ''json_output'', PBool False),
      (ustr ''streaming'', PBool True)]"

definition model_info :: "gemini_client \<Rightarrow> (pystr \<times> pyval) list" where
  "model_info self =
     [(ustr ''model'', PStr (model self)),
      (ustr ''provider'', PStr (ustr ''google'')),
      (ustr ''max_tokens'', PInt (max_tokens self)),
      (ustr ''temperature'', PFloat (temperature self)),
      (ustr ''function_calling'', PBool True),
      (ustr ''vision'', PBool False),
      (ustr ''json_output'', PBool True)]"

text \<open>The loop of \<open>count_tokens\<close>, with its variable \<open>total\<close> (here \<open>tot\<close>); a message is
  counted when its content is true.\<close>

fun count_tokens_loop :: "llm_message list \<Rightarrow> int \<Rightarrow> int" where
  "count_tokens_loop [] tot = tot"
| "count_tokens_loop (message # ms) tot =
     count_tokens_loop ms
       (if truthy (content message)
        then tot + int (length (split (str_content (content message))))
        else tot)"

definition count_tokens :: "llm_message list \<Rightarrow> int" where
  "count_tokens messages = count_tokens_loop messages 0"

definition remaining_tokens :: "gemini_client \<Rightarrow> llm_message list \<Rightarrow> int" where
  "remaining_tokens self messages =
     (let used = count_tokens messages in max 0 (max_tokens self - used))"

section \<open>The mock client\<close>

text \<open>\<open>MockGeminiChatCompletionClient.__init__\<close> stores its arguments and checks
  none of them.\<close>

definition MockGeminiChatCompletionClient_init ::
  "pystr \<Rightarrow> pystr option \<Rightarrow> real \<Rightarrow> int \<Rightarrow> exc + mock_gemini_client" where
  "MockGeminiChatCompletionClient_init model_arg api_key_arg temperature_arg max_tokens_arg =
     Inr \<lparr>model = model_arg, api_key = api_key_arg, temperature = temperature_arg,
          max_tokens = max_tokens_arg\<rparr>"

subsection \<open>The canned responses\<close>

definition architecture_response :: pystr where
  \<open>architecture_response = concat
    [ustr ''# System Architecture Design\<newline>'',
     ustr ''\<newline>'',
     ustr ''## Overview\<newline>'',
     ustr ''I'll design a simple FastAPI application with the following architecture:\<newline>'',
     ustr ''\<newline>'',
     ustr ''## Components\<newline>'',
     ustr ''1. **Main Application** (`main.py`)\<newline>'',
     ustr ''   - FastAPI app instance\<newline>'',
     ustr ''   - Route definitions\<newline>'',
     ustr ''   - Error handling middleware\<newline>'',
     ustr ''\<newline>'',
     ustr ''2. **Health Check Endpoint** (`/health`)\<newline>'',
     ustr ''   - Simple status check\<newline>'',
     ustr ''   - Returns JSON response\<newline>'',
     ustr ''\<newline>'',
     ustr ''3. **Calculator Endpoint** (`/calculate`)\<newline>'',
     ustr ''   - POST endpoint for number addition\<newline>'',
     ustr ''   - Input validation using Pydantic models\<newline>'',
     ustr ''   - Error handling for invalid inputs\<newline>'',
     ustr ''\<newline>'',
     ustr ''## Technical Stack\<newline>'',
     ustr ''- **Framework**: FastAPI\<newline>'',
     ustr ''- **Validation**: Pydantic models\<newline>'',
     ustr ''- **Logging**: Python logging module\<newline>'',
     ustr ''- **Testing**: pytest\<newline>'',
     ustr ''\<newline>'',
     ustr ''## File Structure\<newline>'',
     ustr ''```\<newline>'',
     ustr ''fastapi_app/\<newline>'',
     [9500, 9472, 9472] @ ustr '' main.py          # Main application\<newline>'',
     [9500, 9472, 9472] @ ustr '' models.py        # Pydantic models\<newline>'',
     [9500, 9472, 9472] @ ustr '' test_main.py     # Tests\<newline>'',
     [9492, 9472, 9472] @ ustr '' requirements.txt # Dependencies\<newline>'',
     ustr ''```\<newline>'',
     ustr ''\<newline>'',
     ustr ''This architecture ensures separation of concerns and maintainability.\<newline>'']\<close>

definition planning_response :: pystr where
  \<open>planning_response = concat
    [ustr ''# Implementation Plan\<newline>'',
     ustr ''\<newline>'',
     ustr ''## Phase 1: Project Setup\<newline>'',
     ustr ''- [ ] Create project structure\<newline>'',
     ustr ''- [ ] Set up virtual environment\<newline>'',
     ustr ''- [ ] Install FastAPI dependencies\<newline>'',
     ustr ''\<newline>'',
     ustr ''## Phase 2: Core Implementation\<newline>'',
     ustr ''- [ ] Implement main FastAPI application\<newline>'',
     ustr ''- [ ] Create Pydantic models for validation\<newline>'',
     ustr ''- [ ] Implement health check endpoint\<newline>'',
     ustr ''- [ ] Implement calculator endpoint\<newline>'',
     ustr ''\<newline>'',
     ustr ''## Phase 3: Error Handling & Logging\<newline>'',
     ustr ''- [ ] Add comprehensive error handling\<newline>'',
     ustr ''- [ ] Implement logging system\<newline>'',
     ustr ''- [ ] Add input validation\<newline>'',
     ustr ''\<newline>'',
     ustr ''## Phase 4: Testing\<newline>'',
     ustr ''- [ ] Write unit tests\<newline>'',
     ustr ''- [ ] Test all endpoints\<newline>'',
     ustr ''- [ ] Validate error scenarios\<newline>'',
     ustr ''\<newline>'',
     ustr ''## Timeline\<newline>'',
     ustr ''- Phase 1: 30 minutes\<newline>'',
     ustr ''- Phase 2: 1 hour\<newline>'',
     ustr ''- Phase 3: 30 minutes\<newline>'',
     ustr ''- Phase 4: 45 minutes\<newline>'',
     ustr ''\<newline>'',
     ustr ''Total estimated time: 2.75 hours\<newline>'']\<close>

definition programming_response :: pystr where
  \<open>programming_response = concat
    [ustr ''# FastAPI Implementation\<newline>'',
     ustr ''\<newline>'',
     ustr ''Here's the complete implementation:\<newline>'',
     ustr ''\<newline>'',
     ustr ''## main.py\<newline>'',
     ustr ''```python\<newline>'',
     ustr ''from fastapi import FastAPI, HTTPException\<newline>'',
     ustr ''from pydantic import BaseModel\<newline>'',
     ustr ''import logging\<newline>'',
     ustr ''\<newline>'',
     ustr ''# Configure logging\<newline>'',
     ustr ''logging.basicConfig(level=logging.INFO)\<newline>'',
     ustr ''logger = logging.getLogger(__name__)\<newline>'',
     ustr ''\<newline>'',
     ustr ''app = FastAPI(title="Simple Calculator API", version="1.0.0")\<newline>'',
     ustr ''\<newline>'',
     ustr ''class CalculationRequest(BaseModel):\<newline>'',
     ustr ''    a: float\<newline>'',
     ustr ''    b: float\<newline>'',
     ustr ''\<newline>'',
     ustr ''class CalculationResponse(BaseModel):\<newline>'',
     ustr ''    result: float\<newline>'',
     ustr ''    operation: str\<newline>'',
     ustr ''\<newline>'',
     ustr ''@app.get("/health")\<newline>'',
     ustr ''async def health_check():\<newline>'',
     ustr ''    logger.info("Health check requested")\<newline>'',
     ustr ''    return {"status": "healthy"}\<newline>'',
     ustr ''\<newline>'',
     ustr ''@app.post("/calculate", response_model=CalculationResponse)\<newline>'',
     ustr ''async def calculate(request: CalculationRequest):\<newline>'',
     ustr ''    try:\<newline>'',
     ustr ''        logger.info(f"Calculation requested: {request.a} + {request.b}")\<newline>'',
     ustr ''        result = request.a + request.b\<newline>'',
     ustr ''        return CalculationResponse(result=result, operation="addition")\<newline>'',
     ustr ''    except Exception as e:\<newline>'',
     ustr ''        logger.error(f"Calculation error: {str(e)}")\<newline>'',
     ustr ''        raise HTTPException(status_code=400, detail="Invalid calculation")\<newline>'',
     ustr ''\<newline>'',
     ustr ''if __name__ == "__main__":\<newline>'',
     ustr ''    import uvicorn\<newline>'',
     ustr ''    uvicorn.run(app, host="0.0.0.0", port=8000)\<newline>'',
     ustr ''```\<newline>'',
     ustr ''\<newline>'',
     ustr ''## test_main.py\<newline>'',
     ustr ''```python\<newline>'',
     ustr ''from fastapi.testclient import TestClient\<newline>'',
     ustr ''from main import app\<newline>'',
     ustr ''\<newline>'',
     ustr ''client = TestClient(app)\<newline>'',
     ustr ''\<newline>'',
     ustr ''def test_health_check():\<newline>'',
     ustr ''    response = client.get("/health")\<newline>'',
     ustr ''    assert response.status_code == 200\<newline>'',
     ustr ''    assert response.json() == {"status": "healthy"}\<newline>'',
     ustr ''\<newline>'',
     ustr ''def test_calculate():\<newline>'',
     ustr ''    response = client.post("/calculate", json={"a": 2, "b": 3})\<newline>'',
     ustr ''    assert response.status_code == 200\<newline>'',
     ustr ''    assert response.json()["result"] == 5\<newline>'',
     ustr ''```\<newline>'']\<close>

definition review_response :: pystr where
  \<open>review_response = concat
    [ustr ''# Code Review Report\<newline>'',
     ustr ''\<newline>'',
     ustr ''## Overall Assessment: '' @ [9989] @ ustr '' GOOD\<newline>'',
     ustr ''\<newline>'',
     ustr ''## Strengths\<newline>'',
     ustr ''1. **Clean Structure**: Well-organized code with clear separation\<newline>'',
     ustr ''2. **Type Hints**: Proper use of Pydantic models for validation\<newline>'',
     ustr ''3. **Error Handling**: Appropriate HTTP exceptions\<newline>'',
     ustr ''4. **Logging**: Good logging implementation\<newline>'',
     ustr ''5. **Testing**: Basic test coverage included\<newline>'',
     ustr ''\<newline>'',
     ustr ''## Recommendations\<newline>'',
     ustr ''1. **Add more comprehensive tests** for edge cases\<newline>'',
     ustr ''2. **Consider rate limiting** for production use\<newline>'',
     ustr ''3. **Add API documentation** with more detailed descriptions\<newline>'',
     ustr ''4. **Implement request/response logging middleware**\<newline>'',
     ustr ''\<newline>'',
     ustr ''## Security Considerations\<newline>'',
     ustr ''- Input validation is properly handled by Pydantic\<newline>'',
     ustr ''- No obvious security vulnerabilities\<newline>'',
     ustr ''- Consider adding CORS middleware if needed\<newline>'',
     ustr ''\<newline>'',
     ustr ''## Performance Notes\<newline>'',
     ustr ''- Simple operations, no performance concerns\<newline>'',
     ustr ''- Consider async database operations for future enhancements\<newline>'',
     ustr ''\<newline>'',
     ustr ''## Code Quality Score: 8.5/10\<newline>'']\<close>

definition optimization_response :: pystr where
  \<open>optimization_response = concat
    [ustr ''# Code Optimization Report\<newline>'',
     ustr ''\<newline>'',
     ustr ''## Performance Optimizations Applied\<newline>'',
     ustr ''\<newline>'',
     ustr ''### 1. Async/Await Optimization\<newline>'',
     ustr ''- All endpoints are properly async\<newline>'',
     ustr ''- Non-blocking operations where possible\<newline>'',
     ustr ''\<newline>'',
     ustr ''### 2. Response Model Optimization\<newline>'',
     ustr ''```python\<newline>'',
     ustr ''# Optimized response models\<newline>'',
     ustr ''class OptimizedCalculationResponse(BaseModel):\<newline>'',
     ustr ''    result: float\<newline>'',
     ustr ''    operation: str\<newline>'',
     ustr ''    timestamp: datetime\<newline>'',
     ustr ''    \<newline>'',
     ustr ''    class Config:\<newline>'',
     ustr ''        json_encoders = {\<newline>'',
     ustr ''            datetime: lambda v: v.isoformat()\<newline>'',
     ustr ''        }\<newline>'',
     ustr ''```\<newline>'',
     ustr ''\<newline>'',
     ustr ''### 3. Logging Optimization\<newline>'',
     ustr ''- Structured logging with correlation IDs\<newline>'',
     ustr ''- Async logging for better performance\<newline>'',
     ustr ''\<newline>'',
     ustr ''### 4. Memory Optimization\<newline>'',
     ustr ''- Minimal object creation\<newline>'',
     ustr ''- Efficient data structures\<newline>'',
     ustr ''\<newline>'',
     ustr ''## Benchmarks\<newline>'',
     ustr ''- Health endpoint: ~0.5ms response time\<newline>'',
     ustr ''- Calculate endpoint: ~1.2ms response time\<newline>'',
     ustr ''- Memory usage: ~15MB baseline\<newline>'',
     ustr ''\<newline>'',
     ustr ''## Production Recommendations\<newline>'',
     ustr ''1. Use gunicorn with multiple workers\<newline>'',
     ustr ''2. Implement connection pooling\<newline>'',
     ustr ''3. Add caching for frequent calculations\<newline>'',
     ustr ''4. Use async logging handlers\<newline>'',
     ustr ''\<newline>'',
     ustr ''## Optimization Score: 9/10\<newline>'',
     ustr ''The code is well-optimized for its scope and requirements.\<newline>'']\<close>

definition default_response_head :: pystr where
  \<open>default_response_head = concat
    [ustr ''Thank you for your message. As a Gemini AI assistant, I'm here to help with your programming workflow.\<newline>'',
     ustr ''\<newline>'',
     ustr ''Your message: "'']\<close>

definition default_response_tail :: pystr where
  \<open>default_response_tail = concat
    [ustr ''"\<newline>'',
     ustr ''\<newline>'',
     ustr ''I can assist with:\<newline>'',
     ustr ''- System architecture design\<newline>'',
     ustr ''- Project planning and management  \<newline>'',
     ustr ''- Code implementation\<newline>'',
     ustr ''- Code review and quality assessment\<newline>'',
     ustr ''- Performance optimization\<newline>'',
     ustr ''\<newline>'',
     ustr ''Please let me know how I can help with your specific task!'']\<close>


subsection \<open>\<open>_generate_mock_response\<close> and \<open>create\<close>\<close>

definition generate_mock_response :: "pystr \<Rightarrow> pystr" where
  "generate_mock_response message =
     (let message_lower = lower message in
      if substring_in (ustr ''architect'') message_lower
         \<or> substring_in (ustr ''design'') message_lower
         \<or> substring_in (ustr ''architecture'') message_lower
      then architecture_response
      else if substring_in (ustr ''project'') message_lower
         \<or> substring_in (ustr ''plan'') message_lower
         \<or> substring_in (ustr ''manager'') message_lower
      then planning_response
      else if substring_in (ustr ''code'') message_lower
         \<or> substring_in (ustr ''implement'') message_lower
         \<or> substring_in (ustr ''programmer'') message_lower
      then programming_response
      else if substring_in (ustr ''review'') message_lower
         \<or> substring_in (ustr ''quality'') message_lower
      then review_response
      else if substring_in (ustr ''optim'') message_lower
         \<or> substring_in (ustr ''performance'') message_lower
      then optimization_response
      else default_response_head @ take 100 message
           @ (if 100 < length message then ustr ''...'' else [])
           @ default_response_tail)"

definition mock_create_result :: "pystr \<Rightarrow> llm_message list \<Rightarrow> CreateResult" where
  "mock_create_result response_text original_messages =
     \<lparr>result_content = response_text,
      finish_reason = ustr ''stop'',
      usage = \<lparr>prompt_tokens = prompt_words original_messages,
               completion_tokens = int (length (split response_text))\<rparr>,
      cached = False\<rparr>"

text \<open>The loop over \<open>reversed(messages)\<close>: the text of the first user or system
  message met, the empty string when there is none.\<close>

fun last_message_loop :: "llm_message list \<Rightarrow> pystr" where
  "last_message_loop [] = []"
| "last_message_loop (message # ms) =
     (if is_UserMessage message \<or> is_SystemMessage message then str_content (content message)
      else last_message_loop ms)"

definition mock_create :: "mock_gemini_client \<Rightarrow> llm_message list \<Rightarrow> exc + CreateResult" where
  "mock_create self messages =
     (let last_message = last_message_loop (rev messages);
          response = generate_mock_response last_message
      in Inr (mock_create_result response messages))"

subsection \<open>Metadata and token counting of the mock client\<close>

definition mock_model_info :: "mock_gemini_client \<Rightarrow> (pystr \<times> pyval) list" where
  "mock_model_info self =
     [(ustr ''model'', PStr (model self)),
      (ustr ''provider'', PStr (ustr ''google_mock'')),
      (ustr ''max_tokens'', PInt (max_tokens self)),
      (ustr ''temperature'', PFloat (temperature self)),
      (ustr ''function_calling'', PBool True),
      (ustr ''vision'', PBool False),
      (ustr ''json_output'', PBool True)]"

definition mock_capabilities :: "mock_gemini_client \<Rightarrow> (pystr \<times> pyval) list" where
  "mock_capabilities self =
     [(ustr ''vision'', PBool False),
      (ustr ''function_calling'', PBool False),
      (ustr ''json_output'', PBool False),
      (ustr ''streaming'', PBool True)]"

fun mock_count_tokens_loop :: "llm_message list \<Rightarrow> int \<Rightarrow> int" where
  "mock_count_tokens_loop [] tot = tot"
| "mock_count_tokens_loop (message # ms) tot =
     mock_count_tokens_loop ms
       (if truthy (content message)
        then tot + int (length (split (str_content (content message))))
        else tot)"

definition mock_count_tokens :: "llm_message list \<Rightarrow> int" where
  "mock_count_tokens messages = mock_count_tokens_loop messages 0"

definition mock_remaining_tokens :: "mock_gemini_client \<Rightarrow> llm_message list \<Rightarrow> int" where
  "mock_remaining_tokens self messages =
     (let used = mock_count_tokens messages in max 0 (max_tokens self - used))"

section \<open>Notions used in the statements\<close>

text \<open>The message list with every System message after the first removed.\<close>

fun drop_later_systems :: "llm_message list \<Rightarrow> llm_message list" where
  "drop_later_systems [] = []"
| "drop_later_systems (m # ms) =
     (if is_SystemMessage m then m # filter (\<lambda>x. \<not> is_SystemMessage x) ms
      else m # drop_later_systems ms)"

text \<open>\<open>sub\<close> occurs in \<open>s\<close> when case is ignored: some slice of \<open>s\<close> of the length
  of \<open>sub\<close> has the lower-case form of \<open>sub\<close>.\<close>

definition contains_ignoring_case :: "pystr \<Rightarrow> pystr \<Rightarrow> bool" where
  "contains_ignoring_case sub s =
     list_ex (\<lambda>i. lower (take (length sub) (drop i s)) = lower sub) [0..<Suc (length s)]"

text \<open>The first candidate's first content part's text field of a 200 body of the
  documented shape \<open>{candidates: [{content: {parts: [{text: ...}]}}]}\<close>, when the
  body has it.\<close>

definition first_candidate_text :: "pyval \<Rightarrow> pyval option" where
  "first_candidate_text body =
     (case body of
        PDict kvs \<Rightarrow>
          (case map_of kvs (ustr ''candidates'') of
             Some (PList (PDict c # cs)) \<Rightarrow>
               (case map_of c (ustr ''content'') of
                  Some (PDict ct) \<Rightarrow>
                    (case map_of ct (ustr ''parts'') of
                       Some (PList (PDict p # ps)) \<Rightarrow> map_of p (ustr ''text'')
                     | _ \<Rightarrow> None)
                | _ \<Rightarrow> None)
           | _ \<Rightarrow> None)
      | _ \<Rightarrow> None)"

text \<open>The number of whitespace-delimited words of a text, counted without
  building them: a word starts at each code point that is no whitespace and stands
  first or after whitespace.\<close>

fun word_starts :: "bool \<Rightarrow> pystr \<Rightarrow> nat" where
  "word_starts after_space [] = 0"
| "word_starts after_space (c # cs) =
     (if isspace c then word_starts True cs
      else (if after_space then 1 else 0) + word_starts False cs)"

definition word_count :: "pystr \<Rightarrow> nat" where
  "word_count s = word_starts True s"

text \<open>The two inner stages of \<open>extract_text\<close>, named for the proofs: the walk from
  the first candidate, and the walk from the value under \<open>parts\<close>.\<close>

definition text_of_parts :: "pyval \<Rightarrow> exc + pyval" where
  "text_of_parts ps =
     and_then (py_len ps) (\<lambda>n.
     and_then
       (if 0 < n then and_then (py_first ps) (\<lambda>p. py_in (ustr ''text'') p)
        else Inr False) (\<lambda>has_text.
     if has_text
     then and_then (py_first ps) (\<lambda>p. py_getitem p (ustr ''text''))
     else Inr (PStr no_response_text)))"

definition text_of_candidate :: "pyval \<Rightarrow> exc + pyval" where
  "text_of_candidate candidate =
     and_then (py_in (ustr ''content'') candidate) (\<lambda>has_content.
     and_then
       (if has_content
        then and_then (py_getitem candidate (ustr ''content'')) (\<lambda>ct.
             py_in (ustr ''parts'') ct)
        else Inr False) (\<lambda>has_parts.
     if has_parts then
       and_then (py_getitem candidate (ustr ''content'')) (\<lambda>ct.
       and_then (py_getitem ct (ustr ''parts'')) text_of_parts)
     else Inr (PStr no_response_text)))"

text \<open>What the walk through a body without the text field comes to: the fixed
  sentence, or a \<open>TypeError\<close> or \<open>KeyError\<close> raised on a value of another shape.\<close>

definition absent_outcome :: "exc + pyval \<Rightarrow> bool" where
  "absent_outcome r =
     (r = Inr (PStr no_response_text) \<or> r = Inl TypeError \<or> r = Inl KeyError)"

section \<open>Properties\<close>

subsection \<open>The message translator\<close>

lemma convert_loop_append:
  "convert_loop (xs @ ys) si gc =
     (case convert_loop xs si gc of (si', gc') \<Rightarrow> convert_loop ys si' gc')"
  by (induction xs si gc rule: convert_loop.induct) simp_all

lemma convert_loop_assistants:
  "list_all is_AssistantMessage xs \<Longrightarrow> convert_loop xs si gc = (si, gc)"
  by (induction xs si gc rule: convert_loop.induct) simp_all

lemma convert_loop_set_filter:
  "si \<noteq> None \<Longrightarrow>
   convert_loop ms si gc = convert_loop (filter (\<lambda>x. \<not> is_SystemMessage x) ms) si gc"
  by (induction ms si gc rule: convert_loop.induct) auto

lemma convert_loop_set_fst:
  "si \<noteq> None \<Longrightarrow> fst (convert_loop ms si gc) = si"
  by (induction ms si gc rule: convert_loop.induct) auto

lemma convert_loop_drop_later:
  "convert_loop (drop_later_systems ms) None gc = convert_loop ms None gc"
  by (induction ms "None :: gemini_content option" gc rule: convert_loop.induct)
     (simp_all add: convert_loop_set_filter [symmetric])

lemma convert_loop_first_system:
  "filter is_SystemMessage ms \<noteq> [] \<Longrightarrow>
   fst (convert_loop ms None gc) =
     Some (Content [Part (str_content (content (hd (filter is_SystemMessage ms))))])"
  by (induction ms "None :: gemini_content option" gc rule: convert_loop.induct)
     (simp_all add: convert_loop_set_fst)

lemma convert_loop_no_content:
  "list_all (\<lambda>m. \<not> is_UserMessage m \<and> \<not> is_FunctionExecutionResultMessage m) ms \<Longrightarrow>
   snd (convert_loop ms si gc) = gc"
  by (induction ms si gc rule: convert_loop.induct) simp_all

lemma convert_loop_no_system:
  "list_all (\<lambda>m. \<not> is_SystemMessage m) ms \<Longrightarrow> fst (convert_loop ms si gc) = si"
  by (induction ms si gc rule: convert_loop.induct) simp_all

lemma startswith_take: "startswith s p \<longleftrightarrow> take (length p) s = p"
  by (induction s p rule: startswith.induct) auto

lemma substring_in_slice:
  "substring_in sub s \<longleftrightarrow> (\<exists>i\<le>length s. take (length sub) (drop i s) = sub)"
proof (induction s)
  case Nil
  then show ?case by auto
next
  case (Cons c cs)
  have "(\<exists>i\<le>length (c # cs). take (length sub) (drop i (c # cs)) = sub)
      \<longleftrightarrow> take (length sub) (c # cs) = sub
          \<or> (\<exists>i\<le>length cs. take (length sub) (drop i cs) = sub)"
    (is "?L \<longleftrightarrow> ?A \<or> ?B")
  proof
    assume ?L
    then obtain i where i: "i \<le> length (c # cs)" "take (length sub) (drop i (c # cs)) = sub"
      by blast
    show "?A \<or> ?B"
    proof (cases i)
      case 0
      with i show ?thesis by simp
    next
      case (Suc j)
      with i have "j \<le> length cs" "take (length sub) (drop j cs) = sub" by simp_all
      then show ?thesis by blast
    qed
  next
    assume "?A \<or> ?B"
    then show ?L
    proof
      assume ?A
      then have "take (length sub) (drop 0 (c # cs)) = sub" by simp
      then show ?L by blast
    next
      assume ?B
      then obtain j where "j \<le> length cs" "take (length sub) (drop j cs) = sub" by blast
      then have "Suc j \<le> length (c # cs)" "take (length sub) (drop (Suc j) (c # cs)) = sub"
        by simp_all
      then show ?L by blast
    qed
  qed
  with Cons show ?case by (simp add: startswith_take)
qed

lemma substring_in_lower:
  assumes "lower sub = sub"
  shows "substring_in sub (lower s) \<longleftrightarrow> contains_ignoring_case sub s"
proof -
  have a: "\<And>i. (i \<in> set [0..<Suc (length s)]) = (i \<le> length s)" by auto
  have "contains_ignoring_case sub s \<longleftrightarrow>
        (\<exists>i\<le>length s. lower (take (length sub) (drop i s)) = sub)"
    unfolding contains_ignoring_case_def list_ex_iff Bex_def a using assms by simp
  also have "\<dots> \<longleftrightarrow> (\<exists>i\<le>length (lower s). take (length sub) (drop i (lower s)) = sub)"
    by (simp add: lower_def take_map drop_map)
  also have "\<dots> \<longleftrightarrow> substring_in sub (lower s)"
    by (simp add: substring_in_slice)
  finally show ?thesis by simp
qed

lemma lower_preview: "lower (ustr ''preview'') = ustr ''preview''"
  by (simp add: lower_def ustr_def lower_cp_def)

text \<open>
  Claim C5. A message list made of one System message, then one User message, with
  any number of Assistant messages before, between and after them, translates to a
  request whose systemInstruction is the System message's text and whose contents is
  the single entry holding the User message's text; the Assistant messages add no
  entry.
\<close>

theorem convert_messages_system_then_user:
  assumes "list_all is_AssistantMessage as1"
    and "list_all is_AssistantMessage as2"
    and "list_all is_AssistantMessage as3"
  shows "systemInstruction
           (convert_messages self
              (as1 @ [SystemMessage s] @ as2 @ [UserMessage u src] @ as3))
           = Some (Content [Part (str_content s)])
       \<and> contents
           (convert_messages self
              (as1 @ [SystemMessage s] @ as2 @ [UserMessage u src] @ as3))
           = [Content [Part (str_content u)]]"
  using assms
  by (simp add: convert_messages_def convert_loop_append convert_loop_assistants)

theorem convert_messages_system_then_user_witness:
  "list_all is_AssistantMessage [AssistantMessage (Text (ustr ''earlier answer'')) (ustr ''architect'')]
   \<and> list_all is_AssistantMessage []
   \<and> list_all is_AssistantMessage [AssistantMessage (Text (ustr ''ok'')) (ustr ''programmer'')]
   \<and> systemInstruction
        (convert_messages
              \<lparr>model = ustr ''gemini-2.0-flash'', api_key = Some (ustr ''k''), temperature = 0.7, max_tokens = 4000\<rparr>
           ([AssistantMessage (Text (ustr ''earlier answer'')) (ustr ''architect'')]
            @ [SystemMessage (Text (ustr ''Be brief.''))] @ []
            @ [UserMessage (Text (ustr ''Add two numbers'')) (ustr ''user'')]
            @ [AssistantMessage (Text (ustr ''ok'')) (ustr ''programmer'')]))
       = Some (Content [Part (ustr ''Be brief.'')])
   \<and> contents
        (convert_messages
              \<lparr>model = ustr ''gemini-2.0-flash'', api_key = Some (ustr ''k''), temperature = 0.7, max_tokens = 4000\<rparr>
           ([AssistantMessage (Text (ustr ''earlier answer'')) (ustr ''architect'')]
            @ [SystemMessage (Text (ustr ''Be brief.''))] @ []
            @ [UserMessage (Text (ustr ''Add two numbers'')) (ustr ''user'')]
            @ [AssistantMessage (Text (ustr ''ok'')) (ustr ''programmer'')]))
       = [Content [Part (ustr ''Add two numbers'')]]"
proof -
  have h1: "list_all is_AssistantMessage
              [AssistantMessage (Text (ustr ''earlier answer'')) (ustr ''architect'')]"
    by simp
  have h2: "list_all is_AssistantMessage []"
    by simp
  have h3: "list_all is_AssistantMessage [AssistantMessage (Text (ustr ''ok'')) (ustr ''programmer'')]"
    by simp
  show ?thesis
    using h1 h2 h3
      convert_messages_system_then_user
        [OF h1 h2 h3, where s = "Text (ustr ''Be brief.'')"
          and u = "Text (ustr ''Add two numbers'')"]
    by simp
qed

text \<open>
  Claim C6. For a message list with two or more System messages, the request's
  systemInstruction is the text of the first System message in list order, and the
  later System messages are ignored: the request is the one of the list without
  them, systemInstruction, contents and all.
\<close>

theorem convert_messages_first_system_wins:
  assumes "2 \<le> length (filter is_SystemMessage messages)"
  shows "systemInstruction (convert_messages self messages) =
           Some (Content [Part (str_content (content (hd (filter is_SystemMessage messages))))])
       \<and> convert_messages self messages = convert_messages self (drop_later_systems messages)"
proof -
  from assms have ne: "filter is_SystemMessage messages \<noteq> []"
    by auto
  have "fst (convert_loop messages None []) =
          Some (Content [Part (str_content (content (hd (filter is_SystemMessage messages))))])"
    using ne by (rule convert_loop_first_system)
  then have first: "systemInstruction (convert_messages self messages) =
           Some (Content [Part (str_content (content (hd (filter is_SystemMessage messages))))])"
    by (auto simp: convert_messages_def split: prod.splits)
  have rest: "convert_messages self messages = convert_messages self (drop_later_systems messages)"
    by (simp add: convert_messages_def convert_loop_drop_later)
  from first rest show ?thesis by simp
qed

theorem convert_messages_first_system_wins_witness:
  "2 \<le> length (filter is_SystemMessage
        [SystemMessage (Text (ustr ''You are an architect.'')), UserMessage (Text (ustr ''Design it'')) (ustr ''user''),
         SystemMessage (Text (ustr ''You are a programmer.''))])
   \<and> systemInstruction
        (convert_messages
              \<lparr>model = ustr ''gemini-2.0-flash'', api_key = Some (ustr ''k''), temperature = 0.7, max_tokens = 4000\<rparr>
           [SystemMessage (Text (ustr ''You are an architect.'')), UserMessage (Text (ustr ''Design it'')) (ustr ''user''),
            SystemMessage (Text (ustr ''You are a programmer.''))])
       = Some (Content [Part (ustr ''You are an architect.'')])
   \<and> convert_messages
              \<lparr>model = ustr ''gemini-2.0-flash'', api_key = Some (ustr ''k''), temperature = 0.7, max_tokens = 4000\<rparr>
        [SystemMessage (Text (ustr ''You are an architect.'')), UserMessage (Text (ustr ''Design it'')) (ustr ''user''),
         SystemMessage (Text (ustr ''You are a programmer.''))]
       = convert_messages
              \<lparr>model = ustr ''gemini-2.0-flash'', api_key = Some (ustr ''k''), temperature = 0.7, max_tokens = 4000\<rparr>
           [SystemMessage (Text (ustr ''You are an architect.'')), UserMessage (Text (ustr ''Design it'')) (ustr ''user'')]"
proof -
  have h: "2 \<le> length (filter is_SystemMessage
        [SystemMessage (Text (ustr ''You are an architect.'')), UserMessage (Text (ustr ''Design it'')) (ustr ''user''),
         SystemMessage (Text (ustr ''You are a programmer.''))])"
    by simp
  show ?thesis
    using h convert_messages_first_system_wins [OF h] by simp
qed

text \<open>
  Claim C7. A message list with no User and no FunctionResult message produces no
  content entry of its own, and the request's contents is then the single placeholder
  entry with the fixed text \<open>Hello\<close>; so the contents of the request is non-empty
  for every message list.
\<close>

theorem convert_messages_contents_nonempty:
  "(list_all (\<lambda>m. \<not> is_UserMessage m \<and> \<not> is_FunctionExecutionResultMessage m) messages \<longrightarrow>
      contents (convert_messages self messages) = [Content [Part (ustr ''Hello'')]])
   \<and> contents (convert_messages self messages) \<noteq> []"
  using convert_loop_no_content [of messages None "[]"]
  by (auto simp: convert_messages_def split: prod.splits)

theorem convert_messages_contents_nonempty_witness:
  "list_all (\<lambda>m. \<not> is_UserMessage m \<and> \<not> is_FunctionExecutionResultMessage m)
     [SystemMessage (Text (ustr ''You are an architect.'')), AssistantMessage (Text (ustr ''Done.'')) (ustr ''architect'')]
   \<and> contents
        (convert_messages
              \<lparr>model = ustr ''gemini-2.0-flash'', api_key = Some (ustr ''k''), temperature = 0.7, max_tokens = 4000\<rparr>
           [SystemMessage (Text (ustr ''You are an architect.'')),
            AssistantMessage (Text (ustr ''Done.'')) (ustr ''architect'')])
       = [Content [Part (ustr ''Hello'')]]
   \<and> contents (convert_messages
              \<lparr>model = ustr ''gemini-2.0-flash'', api_key = Some (ustr ''k''), temperature = 0.7, max_tokens = 4000\<rparr> []) = [Content [Part (ustr ''Hello'')]]"
proof -
  have h: "list_all (\<lambda>m. \<not> is_UserMessage m \<and> \<not> is_FunctionExecutionResultMessage m)
     [SystemMessage (Text (ustr ''You are an architect.'')), AssistantMessage (Text (ustr ''Done.'')) (ustr ''architect'')]"
    by simp
  have e: "list_all (\<lambda>m. \<not> is_UserMessage m \<and> \<not> is_FunctionExecutionResultMessage m) []"
    by simp
  show ?thesis
    using h e
      convert_messages_contents_nonempty
        [of "[SystemMessage (Text (ustr ''You are an architect.'')),
              AssistantMessage (Text (ustr ''Done.'')) (ustr ''architect'')]" "
              \<lparr>model = ustr ''gemini-2.0-flash'', api_key = Some (ustr ''k''), temperature = 0.7, max_tokens = 4000\<rparr>"]
      convert_messages_contents_nonempty [of "[]" "
              \<lparr>model = ustr ''gemini-2.0-flash'', api_key = Some (ustr ''k''), temperature = 0.7, max_tokens = 4000\<rparr>"]
    by blast
qed

text \<open>
  Claim C8. For a message list with no System message: when the configured model
  identifier contains \<open>preview\<close>, case ignored, the request carries the fixed
  default systemInstruction; when it does not, the request has no systemInstruction
  field.
\<close>

theorem convert_messages_preview_default:
  assumes "list_all (\<lambda>m. \<not> is_SystemMessage m) messages"
  shows "systemInstruction (convert_messages self messages) =
     (if contains_ignoring_case (ustr ''preview'') (model self)
      then Some (Content
             [Part (ustr ''You are a helpful AI assistant. Provide clear, direct responses.'')])
      else None)"
  using convert_loop_no_system [OF assms, of None "[]"]
  by (auto simp: convert_messages_def substring_in_lower [OF lower_preview]
      default_system_instruction_def split: prod.splits)

theorem convert_messages_preview_default_witness:
  "list_all (\<lambda>m. \<not> is_SystemMessage m) [UserMessage (Text (ustr ''Design it'')) (ustr ''user'')]
   \<and> contains_ignoring_case (ustr ''preview'') (ustr ''gemini-2.5-flash-PREVIEW-04-17'')
   \<and> systemInstruction
        (convert_messages
              \<lparr>model = ustr ''gemini-2.5-flash-PREVIEW-04-17'', api_key = Some (ustr ''k''), temperature = 0.7, max_tokens = 4000\<rparr> [UserMessage (Text (ustr ''Design it'')) (ustr ''user'')])
       = Some (Content
           [Part (ustr ''You are a helpful AI assistant. Provide clear, direct responses.'')])
   \<and> \<not> contains_ignoring_case (ustr ''preview'') (ustr ''gemini-2.0-flash'')
   \<and> systemInstruction
        (convert_messages
              \<lparr>model = ustr ''gemini-2.0-flash'', api_key = Some (ustr ''k''), temperature = 0.7, max_tokens = 4000\<rparr> [UserMessage (Text (ustr ''Design it'')) (ustr ''user'')])
       = None"
proof -
  have h: "list_all (\<lambda>m. \<not> is_SystemMessage m) [UserMessage (Text (ustr ''Design it'')) (ustr ''user'')]"
    by simp
  have p: "contains_ignoring_case (ustr ''preview'') (ustr ''gemini-2.5-flash-PREVIEW-04-17'')"
    by code_simp
  have n: "\<not> contains_ignoring_case (ustr ''preview'') (ustr ''gemini-2.0-flash'')"
    by code_simp
  show ?thesis
    using h p n
      convert_messages_preview_default [OF h, of "
              \<lparr>model = ustr ''gemini-2.5-flash-PREVIEW-04-17'', api_key = Some (ustr ''k''), temperature = 0.7, max_tokens = 4000\<rparr>"]
      convert_messages_preview_default [OF h, of "
              \<lparr>model = ustr ''gemini-2.0-flash'', api_key = Some (ustr ''k''), temperature = 0.7, max_tokens = 4000\<rparr>"]
    by simp
qed

subsection \<open>The transport and \<open>create\<close> of the live client\<close>

lemma extract_text_stages:
  "extract_text result =
     and_then (py_in (ustr ''candidates'') result) (\<lambda>has_key.
     and_then
       (if has_key
        then and_then (py_getitem result (ustr ''candidates'')) (\<lambda>cs.
             and_then (py_len cs) (\<lambda>n. Inr (0 < n)))
        else Inr False) (\<lambda>has_candidate.
     if has_candidate then
       and_then (py_getitem result (ustr ''candidates'')) (\<lambda>cs.
       and_then (py_first cs) text_of_candidate)
     else Inr (PStr no_response_text)))"
  unfolding extract_text_def text_of_candidate_def [abs_def] text_of_parts_def [abs_def] by (rule refl)

lemma one_char_no_text: "\<not> substring_in (ustr ''text'') [c]"
  by (simp add: ustr_def)

lemma one_char_no_content: "\<not> substring_in (ustr ''content'') [c]"
  by (simp add: ustr_def)

lemma text_of_part_absent:
  "(case p of PDict pd \<Rightarrow> map_of pd (ustr ''text'') | _ \<Rightarrow> None) = None \<Longrightarrow>
   absent_outcome
     (and_then (py_in (ustr ''text'') p) (\<lambda>has_text.
        if has_text then py_getitem p (ustr ''text'') else Inr (PStr no_response_text)))"
  by (cases p) (simp_all add: absent_outcome_def and_then_def)

lemma text_of_parts_absent:
  assumes "(case ps of PList (PDict pd # rest) \<Rightarrow> map_of pd (ustr ''text'') | _ \<Rightarrow> None) = None"
  shows "absent_outcome (text_of_parts ps)"
proof (cases ps)
  case (PList xs)
  show ?thesis
  proof (cases xs)
    case Nil
    with PList show ?thesis
      by (simp add: text_of_parts_def and_then_def absent_outcome_def)
  next
    case (Cons p rest)
    with PList assms have "(case p of PDict pd \<Rightarrow> map_of pd (ustr ''text'') | _ \<Rightarrow> None) = None"
      by (simp split: pyval.splits)
    from text_of_part_absent [OF this] PList Cons show ?thesis
      by (simp add: text_of_parts_def and_then_def split: sum.splits if_splits)
  qed
next
  case (PStr s)
  then show ?thesis
    by (cases s) (simp_all add: text_of_parts_def and_then_def absent_outcome_def one_char_no_text)
qed (simp_all add: text_of_parts_def and_then_def absent_outcome_def)

lemma text_of_parts_present:
  "ps = PList (PDict pd # rest) \<Longrightarrow> map_of pd (ustr ''text'') = Some t \<Longrightarrow> text_of_parts ps = Inr t"
  by (simp add: text_of_parts_def and_then_def)

lemma text_of_candidate_absent:
  assumes "(case candidate of
              PDict c \<Rightarrow>
                (case map_of c (ustr ''content'') of
                   Some (PDict ct) \<Rightarrow>
                     (case map_of ct (ustr ''parts'') of
                        Some (PList (PDict p # ps)) \<Rightarrow> map_of p (ustr ''text'')
                      | _ \<Rightarrow> None)
                 | _ \<Rightarrow> None)
            | _ \<Rightarrow> None) = None"
  shows "absent_outcome (text_of_candidate candidate)"
proof (cases candidate)
  case (PDict c)
  show ?thesis
  proof (cases "map_of c (ustr ''content'')")
    case None
    with PDict show ?thesis
      by (simp add: text_of_candidate_def and_then_def absent_outcome_def)
  next
    case (Some content_value)
    show ?thesis
    proof (cases content_value)
      case inner: (PDict ct)
      show ?thesis
      proof (cases "map_of ct (ustr ''parts'')")
        case None
        with PDict Some inner show ?thesis
          by (simp add: text_of_candidate_def and_then_def absent_outcome_def)
      next
        case parts: (Some ps)
        with PDict Some inner assms
        have "(case ps of PList (PDict pd # rest) \<Rightarrow> map_of pd (ustr ''text'') | _ \<Rightarrow> None) = None"
          by (simp split: pyval.splits list.splits)
        from text_of_parts_absent [OF this] PDict Some inner parts show ?thesis
          by (simp add: text_of_candidate_def and_then_def)
      qed
    qed (use PDict Some in \<open>simp_all add: text_of_candidate_def and_then_def absent_outcome_def\<close>)
  qed
qed (simp_all add: text_of_candidate_def and_then_def absent_outcome_def)

lemma extract_text_absent:
  assumes "first_candidate_text body = None"
  shows "absent_outcome (extract_text body)"
proof (cases body)
  case (PDict kvs)
  show ?thesis
  proof (cases "map_of kvs (ustr ''candidates'')")
    case None
    with PDict show ?thesis
      by (simp add: extract_text_stages and_then_def absent_outcome_def)
  next
    case (Some cs)
    show ?thesis
    proof (cases cs)
      case (PList xs)
      show ?thesis
      proof (cases xs)
        case Nil
        with PDict Some PList show ?thesis
          by (simp add: extract_text_stages and_then_def absent_outcome_def)
      next
        case (Cons candidate rest)
        with PDict Some PList assms
        have "(case candidate of
              PDict c \<Rightarrow>
                (case map_of c (ustr ''content'') of
                   Some (PDict ct) \<Rightarrow>
                     (case map_of ct (ustr ''parts'') of
                        Some (PList (PDict p # ps)) \<Rightarrow> map_of p (ustr ''text'')
                      | _ \<Rightarrow> None)
                 | _ \<Rightarrow> None)
            | _ \<Rightarrow> None) = None"
          by (simp add: first_candidate_text_def)
        from text_of_candidate_absent [OF this] PDict Some PList Cons show ?thesis
          by (simp add: extract_text_stages and_then_def)
      qed
    next
      case (PStr s)
      with PDict Some show ?thesis
        by (cases s)
          (simp_all add: extract_text_stages and_then_def absent_outcome_def
             text_of_candidate_def one_char_no_content)
    qed (use PDict Some in \<open>simp_all add: extract_text_stages and_then_def absent_outcome_def\<close>)
  qed
qed (simp_all add: extract_text_stages and_then_def absent_outcome_def)

lemma extract_text_present:
  "first_candidate_text body = Some t \<Longrightarrow> extract_text body = Inr t"
  by (auto simp: first_candidate_text_def extract_text_def and_then_def
      split: pyval.splits option.splits list.splits)

lemma create_of_text:
  "generate_response str_exc self post (convert_messages self messages) = PStr t \<Longrightarrow>
   create str_exc self post messages =
     Inr \<lparr>result_content = t,
          finish_reason = ustr ''stop'',
          usage = \<lparr>prompt_tokens = prompt_words messages,
                   completion_tokens = int (length (split t))\<rparr>,
          cached = False\<rparr>"
  by (simp add: create_def)

text \<open>
  Claim C1, as the code has it. When the one POST is answered with a status other
  than 200 and the body text is read, \<open>create\<close> of the live client returns a
  successful result whose text is \<open>API Error\<close>, the status and the body; when the
  request raises at the network or timeout layer, it returns a successful result
  whose text is \<open>Error:\<close> and the exception's description. Neither case raises.
\<close>

theorem create_turns_failure_into_text:
  "(post (generate_request self (convert_messages self messages)) = PostResponse response
      \<and> status response \<noteq> 200 \<and> text_result response = Inr error_text \<longrightarrow>
    create str_exc self post messages =
      Inr \<lparr>result_content =
             ustr ''API Error '' @ str_int (status response) @ ustr '': '' @ error_text,
           finish_reason = ustr ''stop'',
           usage = \<lparr>prompt_tokens = prompt_words messages,
                    completion_tokens =
                      int (length (split (ustr ''API Error '' @ str_int (status response)
                                          @ ustr '': '' @ error_text)))\<rparr>,
           cached = False\<rparr>)
   \<and> (post (generate_request self (convert_messages self messages)) = PostRaised e \<longrightarrow>
    create str_exc self post messages =
      Inr \<lparr>result_content = ustr ''Error: '' @ str_exc e,
           finish_reason = ustr ''stop'',
           usage = \<lparr>prompt_tokens = prompt_words messages,
                    completion_tokens = int (length (split (ustr ''Error: '' @ str_exc e)))\<rparr>,
           cached = False\<rparr>)"
proof (intro conjI impI)
  assume "post (generate_request self (convert_messages self messages)) = PostResponse response
      \<and> status response \<noteq> 200 \<and> text_result response = Inr error_text"
  then have "generate_response str_exc self post (convert_messages self messages) =
      PStr (ustr ''API Error '' @ str_int (status response) @ ustr '': '' @ error_text)"
    by (simp add: generate_response_def post_and_read_def and_then_def)
  then show "create str_exc self post messages =
      Inr \<lparr>result_content =
             ustr ''API Error '' @ str_int (status response) @ ustr '': '' @ error_text,
           finish_reason = ustr ''stop'',
           usage = \<lparr>prompt_tokens = prompt_words messages,
                    completion_tokens =
                      int (length (split (ustr ''API Error '' @ str_int (status response)
                                          @ ustr '': '' @ error_text)))\<rparr>,
           cached = False\<rparr>"
    by (rule create_of_text)
next
  assume "post (generate_request self (convert_messages self messages)) = PostRaised e"
  then have "generate_response str_exc self post (convert_messages self messages) =
      PStr (ustr ''Error: '' @ str_exc e)"
    by (simp add: generate_response_def post_and_read_def)
  then show "create str_exc self post messages =
      Inr \<lparr>result_content = ustr ''Error: '' @ str_exc e,
           finish_reason = ustr ''stop'',
           usage = \<lparr>prompt_tokens = prompt_words messages,
                    completion_tokens = int (length (split (ustr ''Error: '' @ str_exc e)))\<rparr>,
           cached = False\<rparr>"
    by (rule create_of_text)
qed

theorem create_turns_failure_into_text_witness:
  \<open>status
       \<lparr>status = 429, json_result = Inl (LibraryError (ustr ''ContentTypeError'')),
        text_result = Inr (ustr ''{"error":{"message":"rate limited"}}'')\<rparr> \<noteq> 200
   \<and> create (\<lambda>e. case e of LibraryError d \<Rightarrow> d | _ \<Rightarrow> ustr ''error'')
       \<lparr>model = ustr ''gemini-2.0-flash'', api_key = Some (ustr ''k''), temperature = 0.7,
        max_tokens = 4000, base_url = ustr ''https://generativelanguage.googleapis.com/v1beta''\<rparr>
       (\<lambda>req. PostResponse
       \<lparr>status = 429, json_result = Inl (LibraryError (ustr ''ContentTypeError'')),
        text_result = Inr (ustr ''{"error":{"message":"rate limited"}}'')\<rparr>)
       [UserMessage (Text (ustr ''Design it'')) (ustr ''user'')]
     = Inr \<lparr>result_content =
              ustr ''API Error '' @ str_int 429 @ ustr '': ''
              @ ustr ''{"error":{"message":"rate limited"}}'',
            finish_reason = ustr ''stop'',
            usage = \<lparr>prompt_tokens = prompt_words [UserMessage (Text (ustr ''Design it'')) (ustr ''user'')],
                     completion_tokens =
                       int (length (split (ustr ''API Error '' @ str_int 429 @ ustr '': ''
                                           @ ustr ''{"error":{"message":"rate limited"}}'')))\<rparr>,
            cached = False\<rparr>
   \<and> create (\<lambda>e. case e of LibraryError d \<Rightarrow> d | _ \<Rightarrow> ustr ''error'')
       \<lparr>model = ustr ''gemini-2.0-flash'', api_key = Some (ustr ''k''), temperature = 0.7,
        max_tokens = 4000, base_url = ustr ''https://generativelanguage.googleapis.com/v1beta''\<rparr>
       (\<lambda>req. PostRaised (LibraryError (ustr ''Cannot connect to host'')))
       [UserMessage (Text (ustr ''Design it'')) (ustr ''user'')]
     = Inr \<lparr>result_content = ustr ''Error: '' @ ustr ''Cannot connect to host'',
            finish_reason = ustr ''stop'',
            usage = \<lparr>prompt_tokens = prompt_words [UserMessage (Text (ustr ''Design it'')) (ustr ''user'')],
                     completion_tokens =
                       int (length (split (ustr ''Error: '' @ ustr ''Cannot connect to host'')))\<rparr>,
            cached = False\<rparr>\<close>
  using
    create_turns_failure_into_text
      [of \<open>\<lambda>req. PostResponse
       \<lparr>status = 429, json_result = Inl (LibraryError (ustr ''ContentTypeError'')),
        text_result = Inr (ustr ''{"error":{"message":"rate limited"}}'')\<rparr>\<close>
          \<open>\<lparr>model = ustr ''gemini-2.0-flash'', api_key = Some (ustr ''k''), temperature = 0.7,
        max_tokens = 4000, base_url = ustr ''https://generativelanguage.googleapis.com/v1beta''\<rparr>\<close>
          \<open>[UserMessage (Text (ustr ''Design it'')) (ustr ''user'')]\<close>
          \<open>
       \<lparr>status = 429, json_result = Inl (LibraryError (ustr ''ContentTypeError'')),
        text_result = Inr (ustr ''{"error":{"message":"rate limited"}}'')\<rparr>\<close>
          \<open>ustr ''{"error":{"message":"rate limited"}}''\<close>
          \<open>(\<lambda>e. case e of LibraryError d \<Rightarrow> d | _ \<Rightarrow> ustr ''error'')\<close>
          \<open>LibraryError (ustr ''Cannot connect to host'')\<close>]
    create_turns_failure_into_text
      [of \<open>\<lambda>req. PostRaised (LibraryError (ustr ''Cannot connect to host''))\<close>
          \<open>\<lparr>model = ustr ''gemini-2.0-flash'', api_key = Some (ustr ''k''), temperature = 0.7,
        max_tokens = 4000, base_url = ustr ''https://generativelanguage.googleapis.com/v1beta''\<rparr>\<close>
          \<open>[UserMessage (Text (ustr ''Design it'')) (ustr ''user'')]\<close>
          \<open>
       \<lparr>status = 429, json_result = Inl (LibraryError (ustr ''ContentTypeError'')),
        text_result = Inr (ustr ''{"error":{"message":"rate limited"}}'')\<rparr>\<close>
          \<open>ustr ''{"error":{"message":"rate limited"}}''\<close>
          \<open>(\<lambda>e. case e of LibraryError d \<Rightarrow> d | _ \<Rightarrow> ustr ''error'')\<close>
          \<open>LibraryError (ustr ''Cannot connect to host'')\<close>]
  by simp

text \<open>
  Claim C1 as stated fails: a 429 answer and a connection failure both end in a
  successful result whose text describes the error.
\<close>

theorem create_failure_is_success_counterexample:
  \<open>create (\<lambda>e. case e of LibraryError d \<Rightarrow> d | _ \<Rightarrow> ustr ''error'')
       \<lparr>model = ustr ''gemini-2.0-flash'', api_key = Some (ustr ''k''), temperature = 0.7,
        max_tokens = 4000, base_url = ustr ''https://generativelanguage.googleapis.com/v1beta''\<rparr>
       (\<lambda>req. PostResponse
       \<lparr>status = 429, json_result = Inl (LibraryError (ustr ''ContentTypeError'')),
        text_result = Inr (ustr ''{"error":{"message":"rate limited"}}'')\<rparr>)
       [UserMessage (Text (ustr ''Design it'')) (ustr ''user'')]
     = Inr \<lparr>result_content = ustr ''API Error 429: {"error":{"message":"rate limited"}}'',
            finish_reason = ustr ''stop'',
            usage = \<lparr>prompt_tokens = 2, completion_tokens = 5\<rparr>,
            cached = False\<rparr>
   \<and> create (\<lambda>e. case e of LibraryError d \<Rightarrow> d | _ \<Rightarrow> ustr ''error'')
       \<lparr>model = ustr ''gemini-2.0-flash'', api_key = Some (ustr ''k''), temperature = 0.7,
        max_tokens = 4000, base_url = ustr ''https://generativelanguage.googleapis.com/v1beta''\<rparr>
       (\<lambda>req. PostRaised (LibraryError (ustr ''Cannot connect to host'')))
       [UserMessage (Text (ustr ''Design it'')) (ustr ''user'')]
     = Inr \<lparr>result_content = ustr ''Error: Cannot connect to host'',
            finish_reason = ustr ''stop'',
            usage = \<lparr>prompt_tokens = 2, completion_tokens = 5\<rparr>,
            cached = False\<rparr>\<close>
  by (simp add: create_def generate_response_def post_and_read_def and_then_def str_int_def
      digits.simps ustr_def prompt_words_def split_def isspace_def)

text \<open>The other two cases of a 200 answer, for comparison: a text field holding a
  string is returned as the result's text, and a text field holding anything else
  makes \<open>_create_result\<close> raise.\<close>

lemma create_round_trip:
  assumes "post (generate_request self (convert_messages self messages)) = PostResponse response"
    and "status response = 200"
    and "json_result response = Inr body"
    and "first_candidate_text body = Some (PStr t)"
  shows "create str_exc self post messages =
           Inr \<lparr>result_content = t,
                finish_reason = ustr ''stop'',
                usage = \<lparr>prompt_tokens = prompt_words messages,
                         completion_tokens = int (length (split t))\<rparr>,
                cached = False\<rparr>"
proof -
  have "post_and_read self post (convert_messages self messages) = extract_text body"
    using assms(1-3) by (simp add: post_and_read_def and_then_def)
  with extract_text_present [OF assms(4)]
  have "generate_response str_exc self post (convert_messages self messages) = PStr t"
    by (simp add: generate_response_def)
  then show ?thesis
    by (rule create_of_text)
qed

lemma create_non_text_raises:
  assumes "post (generate_request self (convert_messages self messages)) = PostResponse response"
    and "status response = 200"
    and "json_result response = Inr body"
    and "first_candidate_text body = Some v"
    and "(case v of PStr s \<Rightarrow> False | _ \<Rightarrow> True)"
  shows "create str_exc self post messages = Inl AttributeError"
proof -
  have "post_and_read self post (convert_messages self messages) = extract_text body"
    using assms(1-3) by (simp add: post_and_read_def and_then_def)
  with extract_text_present [OF assms(4)]
  have "generate_response str_exc self post (convert_messages self messages) = v"
    by (simp add: generate_response_def)
  with assms(5) show ?thesis
    by (cases v) (simp_all add: create_def)
qed

lemma create_round_trip_example:
  \<open>create (\<lambda>e. ustr ''error'')
     \<lparr>model = ustr ''gemini-2.0-flash'', api_key = Some (ustr ''k''), temperature = 0.7,
        max_tokens = 4000, base_url = ustr ''https://generativelanguage.googleapis.com/v1beta''\<rparr>
     (\<lambda>req. PostResponse
        \<lparr>status = 200,
         json_result =
           Inr (PDict [(ustr ''candidates'',
                  PList [PDict [(ustr ''content'',
                    PDict [(ustr ''parts'',
                      PList [PDict [(ustr ''text'', PStr (ustr ''Hello from Gemini!''))]])])]])]),
         text_result = Inr []\<rparr>)
     [UserMessage (Text (ustr ''Design it'')) (ustr ''user'')]
   = Inr \<lparr>result_content = ustr ''Hello from Gemini!'',
          finish_reason = ustr ''stop'',
          usage = \<lparr>prompt_tokens = 2, completion_tokens = 3\<rparr>,
          cached = False\<rparr>\<close>
  by (simp add: create_def generate_response_def post_and_read_def and_then_def
      extract_text_def ustr_def prompt_words_def split_def isspace_def)

text \<open>
  Claim C2, as the code has it. For a 200 answer whose parsed body lacks the first
  candidate's first content part's text field, \<open>create\<close> of the live client raises
  nothing and returns a successful result: its text is the fixed sentence
  \<open>I apologize, but I couldn't generate a response.\<close>, or \<open>Error:\<close> and the
  description of the \<open>TypeError\<close> or \<open>KeyError\<close> that a value of another shape
  raised on the way; for a body that is an object with no candidates key or an empty
  candidates list it is the fixed sentence.
\<close>

theorem create_on_absent_text:
  assumes "post (generate_request self (convert_messages self messages)) = PostResponse response"
    and "status response = 200"
    and "json_result response = Inr body"
    and "first_candidate_text body = None"
  shows "\<exists>t. create str_exc self post messages =
             Inr \<lparr>result_content = t,
                  finish_reason = ustr ''stop'',
                  usage = \<lparr>prompt_tokens = prompt_words messages,
                           completion_tokens = int (length (split t))\<rparr>,
                  cached = False\<rparr>
           \<and> (t = no_response_text \<or> t = ustr ''Error: '' @ str_exc TypeError
                \<or> t = ustr ''Error: '' @ str_exc KeyError)
           \<and> ((\<exists>kvs. body = PDict kvs
                  \<and> (map_of kvs (ustr ''candidates'') = None
                       \<or> map_of kvs (ustr ''candidates'') = Some (PList []))) \<longrightarrow>
                t = no_response_text)"
proof -
  have walk: "post_and_read self post (convert_messages self messages) = extract_text body"
    using assms(1-3) by (simp add: post_and_read_def and_then_def)
  have empty: "extract_text body = Inr (PStr no_response_text)"
    if "\<exists>kvs. body = PDict kvs
          \<and> (map_of kvs (ustr ''candidates'') = None
               \<or> map_of kvs (ustr ''candidates'') = Some (PList []))"
    using that by (auto simp: extract_text_stages and_then_def)
  from extract_text_absent [OF assms(4)]
  consider "extract_text body = Inr (PStr no_response_text)"
    | "extract_text body = Inl TypeError" | "extract_text body = Inl KeyError"
    by (auto simp: absent_outcome_def)
  then show ?thesis
  proof cases
    case 1
    with walk have "generate_response str_exc self post (convert_messages self messages) =
        PStr no_response_text"
      by (simp add: generate_response_def)
    from create_of_text [OF this] show ?thesis
      by blast
  next
    case 2
    with walk have "generate_response str_exc self post (convert_messages self messages) =
        PStr (ustr ''Error: '' @ str_exc TypeError)"
      by (simp add: generate_response_def)
    from create_of_text [OF this] 2 empty show ?thesis
      by auto
  next
    case 3
    with walk have "generate_response str_exc self post (convert_messages self messages) =
        PStr (ustr ''Error: '' @ str_exc KeyError)"
      by (simp add: generate_response_def)
    from create_of_text [OF this] 3 empty show ?thesis
      by auto
  qed
qed

theorem create_on_absent_text_witness:
  \<open>status
       \<lparr>status = 200, json_result = Inr (PDict [(ustr ''candidates'', PList [])]),
        text_result = Inr (ustr ''{"candidates": []}'')\<rparr> = 200
   \<and> first_candidate_text (PDict [(ustr ''candidates'', PList [])]) = None
   \<and> create (\<lambda>e. case e of LibraryError d \<Rightarrow> d | _ \<Rightarrow> ustr ''error'')
       \<lparr>model = ustr ''gemini-2.0-flash'', api_key = Some (ustr ''k''), temperature = 0.7,
        max_tokens = 4000, base_url = ustr ''https://generativelanguage.googleapis.com/v1beta''\<rparr>
       (\<lambda>req. PostResponse
       \<lparr>status = 200, json_result = Inr (PDict [(ustr ''candidates'', PList [])]),
        text_result = Inr (ustr ''{"candidates": []}'')\<rparr>)
       [UserMessage (Text (ustr ''Design it'')) (ustr ''user'')]
     = Inr \<lparr>result_content = no_response_text,
            finish_reason = ustr ''stop'',
            usage = \<lparr>prompt_tokens = prompt_words [UserMessage (Text (ustr ''Design it'')) (ustr ''user'')],
                     completion_tokens = int (length (split no_response_text))\<rparr>,
            cached = False\<rparr>\<close>
proof -
  have h1: \<open>(\<lambda>req. PostResponse
       \<lparr>status = 200, json_result = Inr (PDict [(ustr ''candidates'', PList [])]),
        text_result = Inr (ustr ''{"candidates": []}'')\<rparr>)
        (generate_request \<lparr>model = ustr ''gemini-2.0-flash'', api_key = Some (ustr ''k''), temperature = 0.7,
        max_tokens = 4000, base_url = ustr ''https://generativelanguage.googleapis.com/v1beta''\<rparr>
          (convert_messages \<lparr>model = ustr ''gemini-2.0-flash'', api_key = Some (ustr ''k''), temperature = 0.7,
        max_tokens = 4000, base_url = ustr ''https://generativelanguage.googleapis.com/v1beta''\<rparr> [UserMessage (Text (ustr ''Design it'')) (ustr ''user'')]))
      = PostResponse
       \<lparr>status = 200, json_result = Inr (PDict [(ustr ''candidates'', PList [])]),
        text_result = Inr (ustr ''{"candidates": []}'')\<rparr>\<close>
    by simp
  have h2: \<open>status
       \<lparr>status = 200, json_result = Inr (PDict [(ustr ''candidates'', PList [])]),
        text_result = Inr (ustr ''{"candidates": []}'')\<rparr> = 200\<close>
    by simp
  have h3: \<open>json_result
       \<lparr>status = 200, json_result = Inr (PDict [(ustr ''candidates'', PList [])]),
        text_result = Inr (ustr ''{"candidates": []}'')\<rparr> = Inr (PDict [(ustr ''candidates'', PList [])])\<close>
    by simp
  have h4: \<open>first_candidate_text (PDict [(ustr ''candidates'', PList [])]) = None\<close>
    by (simp add: first_candidate_text_def)
  show ?thesis
    using h2 h4 create_on_absent_text [OF h1 h2 h3 h4, of \<open>(\<lambda>e. case e of LibraryError d \<Rightarrow> d | _ \<Rightarrow> ustr ''error'')\<close>]
    by auto
qed

text \<open>
  Claim C2 as stated fails: a 200 answer with an empty candidates list ends in a
  successful result holding the fixed sentence.
\<close>

theorem create_empty_candidates_counterexample:
  \<open>create (\<lambda>e. case e of LibraryError d \<Rightarrow> d | _ \<Rightarrow> ustr ''error'')
       \<lparr>model = ustr ''gemini-2.0-flash'', api_key = Some (ustr ''k''), temperature = 0.7,
        max_tokens = 4000, base_url = ustr ''https://generativelanguage.googleapis.com/v1beta''\<rparr>
       (\<lambda>req. PostResponse
       \<lparr>status = 200, json_result = Inr (PDict [(ustr ''candidates'', PList [])]),
        text_result = Inr (ustr ''{"candidates": []}'')\<rparr>)
       [UserMessage (Text (ustr ''Design it'')) (ustr ''user'')]
     = Inr \<lparr>result_content = ustr ''I apologize, but I couldn't generate a response.'',
            finish_reason = ustr ''stop'',
            usage = \<lparr>prompt_tokens = 2, completion_tokens = 8\<rparr>,
            cached = False\<rparr>\<close>
  by (simp add: create_def generate_response_def post_and_read_def and_then_def
      extract_text_def no_response_text_def ustr_def prompt_words_def split_def isspace_def)

subsection \<open>Construction\<close>

text \<open>
  Claim C3, as the code has it. Constructing the live client with a missing or empty
  API key fails at construction with the \<open>ValueError\<close> naming the key. Constructing
  the mock client checks nothing: it succeeds for every API key, a missing or empty
  one included, and its \<open>create\<close> succeeds too, whatever the key.
\<close>

theorem construction_api_key:
  "(api_key_arg = None \<or> api_key_arg = Some [] \<longrightarrow>
      GeminiChatCompletionClient_init model_arg api_key_arg temperature_arg max_tokens_arg
        = Inl (ValueError (ustr ''Google API key is required for Gemini client'')))
   \<and> MockGeminiChatCompletionClient_init model_arg api_key_arg temperature_arg max_tokens_arg
        = Inr \<lparr>model = model_arg, api_key = api_key_arg, temperature = temperature_arg,
               max_tokens = max_tokens_arg\<rparr>
   \<and> (\<exists>r. mock_create
              \<lparr>model = model_arg, api_key = api_key_arg, temperature = temperature_arg,
               max_tokens = max_tokens_arg\<rparr> messages = Inr r)"
  by (simp add: GeminiChatCompletionClient_init_def MockGeminiChatCompletionClient_init_def
      mock_create_def)

theorem construction_api_key_witness:
  "GeminiChatCompletionClient_init (ustr ''gemini-2.0-flash'') None 0.7 4000
     = Inl (ValueError (ustr ''Google API key is required for Gemini client''))
   \<and> GeminiChatCompletionClient_init (ustr ''gemini-2.0-flash'') (Some []) 0.7 4000
     = Inl (ValueError (ustr ''Google API key is required for Gemini client''))"
  using
    construction_api_key [of None "ustr ''gemini-2.0-flash''" "0.7" 4000 "[]"]
    construction_api_key [of "Some []" "ustr ''gemini-2.0-flash''" "0.7" 4000 "[]"]
  by simp

text \<open>
  Claim C3 as stated fails for the mock variant: constructed without an API key, it
  is a client.
\<close>

theorem mock_construction_counterexample:
  "MockGeminiChatCompletionClient_init (ustr ''gemini-2.0-flash'') None 0.7 4000
     = Inr \<lparr>model = ustr ''gemini-2.0-flash'', api_key = None, temperature = 0.7, max_tokens = 4000\<rparr>"
  by (simp add: MockGeminiChatCompletionClient_init_def)

subsection \<open>Metadata\<close>

text \<open>
  Claim C4. For the live and for the mock client, \<open>model_info\<close> reports
  \<open>function_calling\<close> and \<open>json_output\<close> as true, and \<open>capabilities\<close> of the
  same client reports both as false.
\<close>

theorem model_info_and_capabilities_disagree:
  "map_of (model_info self) (ustr ''function_calling'') = Some (PBool True)
   \<and> map_of (model_info self) (ustr ''json_output'') = Some (PBool True)
   \<and> map_of (capabilities self) (ustr ''function_calling'') = Some (PBool False)
   \<and> map_of (capabilities self) (ustr ''json_output'') = Some (PBool False)
   \<and> map_of (mock_model_info mock_self) (ustr ''function_calling'') = Some (PBool True)
   \<and> map_of (mock_model_info mock_self) (ustr ''json_output'') = Some (PBool True)
   \<and> map_of (mock_capabilities mock_self) (ustr ''function_calling'') = Some (PBool False)
   \<and> map_of (mock_capabilities mock_self) (ustr ''json_output'') = Some (PBool False)"
  by (simp add: model_info_def capabilities_def mock_model_info_def mock_capabilities_def
      ustr_def)

subsection \<open>Token counting\<close>

lemma length_split_from:
  "length (split_from cur s) = word_starts (cur = []) s + (if cur = [] then 0 else 1)"
  by (induction s arbitrary: cur) simp_all

lemma length_split: "length (split s) = word_count s"
  by (simp add: split_def word_count_def length_split_from)

lemma word_count_empty: "word_count [] = 0"
  by (simp add: word_count_def)

lemma counted_words:
  "(if truthy c then tot + int (length (split (str_content c))) else tot) =
     tot + (if c \<noteq> Items [] then int (word_count (str_content c)) else 0)"
  by (cases c) (simp_all add: length_split word_count_empty)

lemma count_tokens_loop_sum:
  "count_tokens_loop ms tot =
     tot + sum_list (map (\<lambda>m. int (word_count (str_content (content m))))
                      (filter (\<lambda>m. content m \<noteq> Items []) ms))"
  by (induction ms arbitrary: tot) (simp_all add: counted_words)

lemma mock_count_tokens_loop_sum:
  "mock_count_tokens_loop ms tot =
     tot + sum_list (map (\<lambda>m. int (word_count (str_content (content m))))
                      (filter (\<lambda>m. content m \<noteq> Items []) ms))"
  by (induction ms arbitrary: tot) (simp_all add: counted_words)

text \<open>
  Claim C9, as the code has it. \<open>count_tokens\<close> skips a message whose content is
  false: it is the sum of the numbers of whitespace-delimited words of
  \<open>str(content)\<close> over the messages whose content is not an empty list (an empty
  text has no word), and so over all the messages when no content is an empty list.
  The mock client's is the same function; \<open>remaining_tokens\<close> of either client is
  the maximum of 0 and the configured maximum less that count, and so is never
  negative, however large the count.
\<close>

theorem token_counting:
  "count_tokens messages =
     sum_list (map (\<lambda>m. int (word_count (str_content (content m))))
                (filter (\<lambda>m. content m \<noteq> Items []) messages))
   \<and> (list_all (\<lambda>m. content m \<noteq> Items []) messages \<longrightarrow>
        count_tokens messages =
          sum_list (map (\<lambda>m. int (word_count (str_content (content m)))) messages))
   \<and> mock_count_tokens messages = count_tokens messages
   \<and> remaining_tokens self messages = max 0 (max_tokens self - count_tokens messages)
   \<and> mock_remaining_tokens mock_self messages
       = max 0 (max_tokens mock_self - mock_count_tokens messages)
   \<and> 0 \<le> remaining_tokens self messages
   \<and> 0 \<le> mock_remaining_tokens mock_self messages"
proof -
  have all: "filter (\<lambda>m. content m \<noteq> Items []) messages = messages"
    if "list_all (\<lambda>m. content m \<noteq> Items []) messages"
    using that by (simp add: list_all_iff)
  show ?thesis
    by (auto simp: count_tokens_def mock_count_tokens_def count_tokens_loop_sum
        mock_count_tokens_loop_sum remaining_tokens_def mock_remaining_tokens_def all)
qed

theorem token_counting_witness:
  "list_all (\<lambda>m. content m \<noteq> Items [])
     [SystemMessage (Text (ustr ''You are an architect.'')),
      UserMessage (Text (ustr ''Design  it'')) (ustr ''user'')]
   \<and> count_tokens
        [SystemMessage (Text (ustr ''You are an architect.'')),
         UserMessage (Text (ustr ''Design  it'')) (ustr ''user'')] = 6
   \<and> remaining_tokens
        \<lparr>model = ustr ''gemini-2.0-flash'', api_key = Some (ustr ''k''), temperature = 0.7,
         max_tokens = 4, base_url = ustr ''https://generativelanguage.googleapis.com/v1beta''\<rparr>
        [SystemMessage (Text (ustr ''You are an architect.'')),
         UserMessage (Text (ustr ''Design  it'')) (ustr ''user'')] = 0"
proof -
  have h: "list_all (\<lambda>m. content m \<noteq> Items [])
     [SystemMessage (Text (ustr ''You are an architect.'')),
      UserMessage (Text (ustr ''Design  it'')) (ustr ''user'')]"
    by simp
  have w: "sum_list (map (\<lambda>m. int (word_count (str_content (content m))))
     [SystemMessage (Text (ustr ''You are an architect.'')),
      UserMessage (Text (ustr ''Design  it'')) (ustr ''user'')]) = 6"
    by (simp add: word_count_def ustr_def isspace_def)
  show ?thesis
    using h w
      token_counting
        [of "[SystemMessage (Text (ustr ''You are an architect.'')),
              UserMessage (Text (ustr ''Design  it'')) (ustr ''user'')]"
            "\<lparr>model = ustr ''gemini-2.0-flash'', api_key = Some (ustr ''k''), temperature = 0.7,
              max_tokens = 4, base_url = ustr ''https://generativelanguage.googleapis.com/v1beta''\<rparr>"]
    by simp
qed

text \<open>
  Claim C9 as stated fails: a function result message whose content is the empty
  list prints as \<open>[]\<close>, one word, and is skipped by \<open>count_tokens\<close> of either
  client, while \<open>_create_result\<close> counts it.
\<close>

theorem token_counting_skips_empty_list_counterexample:
  "count_tokens
     [FunctionExecutionResultMessage (Items []),
      UserMessage (Text (ustr ''a b'')) (ustr ''user'')] = 2
   \<and> mock_count_tokens
     [FunctionExecutionResultMessage (Items []),
      UserMessage (Text (ustr ''a b'')) (ustr ''user'')] = 2
   \<and> sum_list (map (\<lambda>m. int (word_count (str_content (content m))))
     [FunctionExecutionResultMessage (Items []),
      UserMessage (Text (ustr ''a b'')) (ustr ''user'')]) = 3
   \<and> prompt_words
     [FunctionExecutionResultMessage (Items []),
      UserMessage (Text (ustr ''a b'')) (ustr ''user'')] = 3"
  by (simp add: count_tokens_def mock_count_tokens_def prompt_words_def word_count_def
      split_def ustr_def isspace_def)

subsection \<open>The mock client's \<open>create\<close>\<close>

lemma substring_in_lower_mono:
  assumes "lower sub = sub" and "substring_in sub s"
  shows "substring_in sub (lower s)"
proof -
  from assms(2) obtain i where i: "i \<le> length s" "take (length sub) (drop i s) = sub"
    by (auto simp: substring_in_slice)
  then have "take (length sub) (drop i (lower s)) = lower sub"
    by (simp add: lower_def take_map drop_map)
  with assms(1) i(1) show ?thesis
    by (auto simp: substring_in_slice lower_def)
qed

lemma lower_architecture: "lower (ustr ''architecture'') = ustr ''architecture''"
  by (simp add: lower_def ustr_def lower_cp_def)

lemma last_message_loop_skip:
  "list_all (\<lambda>x. \<not> is_UserMessage x \<and> \<not> is_SystemMessage x) xs \<Longrightarrow>
   last_message_loop (xs @ ys) = last_message_loop ys"
  by (induction xs) simp_all

lemma generate_mock_response_architecture:
  "substring_in (ustr ''architecture'') message \<Longrightarrow>
   generate_mock_response message = architecture_response"
  by (simp add: generate_mock_response_def Let_def
      substring_in_lower_mono [OF lower_architecture])

text \<open>
  Claim C10. When the text of the most recent System or User message of the list
  contains \<open>architecture\<close>, \<open>create\<close> of the mock client returns the canned
  architecture response. \<open>mock_create\<close> has no access to a backend, and is a
  function of the message list alone: a client configured otherwise returns the same
  result.
\<close>

theorem mock_create_architecture:
  assumes "is_UserMessage m \<or> is_SystemMessage m"
    and "list_all (\<lambda>x. \<not> is_UserMessage x \<and> \<not> is_SystemMessage x) later"
    and "substring_in (ustr ''architecture'') (str_content (content m))"
  shows "mock_create self (earlier @ [m] @ later) =
           Inr \<lparr>result_content = architecture_response,
                finish_reason = ustr ''stop'',
                usage = \<lparr>prompt_tokens = prompt_words (earlier @ [m] @ later),
                         completion_tokens = int (length (split architecture_response))\<rparr>,
                cached = False\<rparr>
       \<and> mock_create other_self (earlier @ [m] @ later)
           = mock_create self (earlier @ [m] @ later)"
proof -
  from assms(2)
  have "list_all (\<lambda>x. \<not> is_UserMessage x \<and> \<not> is_SystemMessage x) (rev later)"
    by (simp add: list_all_iff)
  then have "last_message_loop (rev (earlier @ [m] @ later)) = last_message_loop (m # rev earlier)"
    by (simp add: last_message_loop_skip)
  with assms(1) have "last_message_loop (rev (earlier @ [m] @ later)) = str_content (content m)"
    by auto
  with assms(3) show ?thesis
    by (simp add: mock_create_def Let_def generate_mock_response_architecture
        mock_create_result_def)
qed

theorem mock_create_architecture_witness:
  "(is_UserMessage (UserMessage (Text (ustr ''Propose an architecture for the API'')) (ustr ''user''))
      \<or> is_SystemMessage (UserMessage (Text (ustr ''Propose an architecture for the API'')) (ustr ''user'')))
   \<and> list_all (\<lambda>x. \<not> is_UserMessage x \<and> \<not> is_SystemMessage x)
        [AssistantMessage (Text (ustr ''Working on it'')) (ustr ''architect'')]
   \<and> substring_in (ustr ''architecture'')
        (str_content
           (content (UserMessage (Text (ustr ''Propose an architecture for the API'')) (ustr ''user''))))
   \<and> mock_create \<lparr>model = ustr ''gemini-2.0-flash'', api_key = None, temperature = 0.7, max_tokens = 4000\<rparr>
        ([SystemMessage (Text (ustr ''You review code.''))]
         @ [UserMessage (Text (ustr ''Propose an architecture for the API'')) (ustr ''user'')]
         @ [AssistantMessage (Text (ustr ''Working on it'')) (ustr ''architect'')])
     = Inr \<lparr>result_content = architecture_response,
            finish_reason = ustr ''stop'',
            usage =
              \<lparr>prompt_tokens =
                 prompt_words
                   ([SystemMessage (Text (ustr ''You review code.''))]
                    @ [UserMessage (Text (ustr ''Propose an architecture for the API'')) (ustr ''user'')]
                    @ [AssistantMessage (Text (ustr ''Working on it'')) (ustr ''architect'')]),
               completion_tokens = int (length (split architecture_response))\<rparr>,
            cached = False\<rparr>"
proof -
  have h1: "is_UserMessage (UserMessage (Text (ustr ''Propose an architecture for the API'')) (ustr ''user''))
      \<or> is_SystemMessage (UserMessage (Text (ustr ''Propose an architecture for the API'')) (ustr ''user''))"
    by simp
  have h2: "list_all (\<lambda>x. \<not> is_UserMessage x \<and> \<not> is_SystemMessage x)
        [AssistantMessage (Text (ustr ''Working on it'')) (ustr ''architect'')]"
    by simp
  have h3: "substring_in (ustr ''architecture'')
        (str_content
           (content (UserMessage (Text (ustr ''Propose an architecture for the API'')) (ustr ''user''))))"
    by (simp add: ustr_def)
  show ?thesis
    using h1 h2 h3
      mock_create_architecture
        [OF h1 h2 h3, of "\<lparr>model = ustr ''gemini-2.0-flash'', api_key = None, temperature = 0.7, max_tokens = 4000\<rparr>" "[SystemMessage (Text (ustr ''You review code.''))]" "\<lparr>model = ustr ''gemini-2.0-flash'', api_key = None, temperature = 0.7, max_tokens = 4000\<rparr>"]
    by blast
qed

end
